theory Spec2Isabelle
  imports Main "HOL-Library.Sublist"
begin

section \<open>The types of the runner protocol\<close>

text \<open>
  Host and local paths are plain strings (\<open>InputPathType\<close>, \<open>OutputPathType\<close>).
  A JavaScript string is modelled as a \<open>string\<close>, one \<open>char\<close> per code unit.
\<close>

type_synonym InputPathType = string
type_synonym OutputPathType = string

text \<open>
  Static tool metadata. The optional members \<open>citations\<close> and
  \<open>container_image_tag\<close> are \<open>None\<close> when absent. The member \<open>id\<close> is
  written \<open>id'\<close>, since \<open>id\<close> is the identity function of HOL.
\<close>

record Metadata =
  id' :: string
  name :: string
  package :: string
  citations :: "string list option"
  container_image_tag :: "string option"

section \<open>Objects, references and the program state\<close>

text \<open>
  Objects are held by reference. A \<open>ref\<close> is the address of a \<open>DryRunner\<close>
  object; the heap maps every address to the fields of the object there, and
  \<open>next_ref\<close> is the first address that \<open>new\<close> has not handed out yet.
\<close>

type_synonym ref = nat

text \<open>
  The three fields of a \<open>DryRunner\<close>; \<open>null\<close> is \<open>None\<close>. The parameter
  objects that \<open>params\<close> receives are values of an arbitrary type \<open>'p\<close>.
\<close>

record 'p DryRunner =
  lastCargs :: "string list option"
  lastMetadata :: "Metadata option"
  lastParams :: "'p option"

text \<open>
  A value of the interface \<open>Runner\<close> is a reference to an object that implements it:
  a \<open>DryRunner\<close> of the heap, or an object of some other implementation, which
  this development keeps opaque (\<open>'x\<close>).
\<close>

datatype 'x Runner = DryRunnerRef ref | OtherRunner 'x

text \<open>
  The program state: the heap of \<open>DryRunner\<close> objects, the module variable
  \<open>STYX_GLOBAL_RUNNER\<close> of the registry (initially \<open>null\<close>), and \<open>env\<close>, the rest
  of the caller's world, which is what an output callback acts on.
\<close>

record ('p, 'x, 'e) world =
  heap :: "ref \<Rightarrow> 'p DryRunner"
  next_ref :: ref
  STYX_GLOBAL_RUNNER :: "'x Runner option"
  env :: 'e

text \<open>An output callback \<open>(output: string) => void\<close> is an effect on the state.\<close>

type_synonym ('p, 'x, 'e) handler = "string \<Rightarrow> ('p, 'x, 'e) world \<Rightarrow> ('p, 'x, 'e) world"

section \<open>The error value\<close>

text \<open>
  \<open>StyxRuntimeError\<close>: the message built by the constructor (the argument of
  \<open>super\<close>), the error's \<open>name\<close> (written \<open>name'\<close>, \<open>name\<close> being a member of
  \<open>Metadata\<close>), and the two structured members. \<open>undefined\<close> is \<open>None\<close>.
\<close>

record StyxRuntimeError =
  message :: string
  name' :: string
  returnCode :: "int option"
  commandArgs :: "string list option"

text \<open>
  The template literal renders the return code with the number-to-string
  conversion of the language. Return codes are integers; an integer of magnitude
  below \<open>10^21\<close> prints as its decimal digits, with a leading minus sign when
  negative. \<open>Number_toString\<close> is that conversion on integers.
\<close>

fun digits :: "nat \<Rightarrow> string" where
  "digits n =
     (if n < 10 then [char_of (48 + n)]
      else digits (n div 10) @ [char_of (48 + n mod 10)])"

declare digits.simps [simp del]

definition Number_toString :: "int \<Rightarrow> string" where
  "Number_toString n =
     (if n < 0 then CHR ''-'' # digits (nat (- n)) else digits (nat n))"

text \<open>
  \<open>s.includes(c)\<close> for a one-character search string (\<open>includes\<close> is a
  keyword of Isabelle, hence the prime).
\<close>

definition includes' :: "string \<Rightarrow> char \<Rightarrow> bool" where
  "includes' s c = (c \<in> set s)"

text \<open>
  \<open>arg.replace(/"/g, '\\"')\<close>: every double quote (\<open>0x22\<close>), from left to right,
  becomes a backslash (\<open>0x5C\<close>) and a double quote; the replacement text has no
  \<open>$\<close> pattern. Every other character is kept.
\<close>

fun replace_dquote :: "string \<Rightarrow> string" where
  "replace_dquote [] = []"
| "replace_dquote (c # cs) =
     (if c = CHR 0x22 then CHR 0x5C # CHR 0x22 # replace_dquote cs
      else c # replace_dquote cs)"

text \<open>
  The arrow function mapped over the arguments (``simple implementation of
  shlex.join''): the tests are for a space, a double quote and a single quote
  (\<open>0x27\<close>).
\<close>

definition quote_arg :: "string \<Rightarrow> string" where
  "quote_arg arg =
     (if includes' arg CHR '' '' \<or> includes' arg CHR 0x22 \<or> includes' arg CHR 0x27
      then [CHR 0x22] @ replace_dquote arg @ [CHR 0x22]
      else arg)"

text \<open>\<open>Array.prototype.join\<close> on an array of strings.\<close>

fun join :: "string \<Rightarrow> string list \<Rightarrow> string" where
  "join sep [] = []"
| "join sep [x] = x"
| "join sep (x # y # ys) = x @ sep @ join sep (y # ys)"

text \<open>
  The constructor of \<open>StyxRuntimeError\<close>. The three \<open>let\<close> bindings are the three
  assignments to \<open>message\<close>; \<open>CHR 0x0A\<close> is the newline.
\<close>

definition StyxRuntimeError_new ::
  "int option \<Rightarrow> string list option \<Rightarrow> string option \<Rightarrow> StyxRuntimeError" where
  "StyxRuntimeError_new rc cargs messageExtra =
     (let m1 = (case rc of
                  Some c \<Rightarrow> ''Command failed with return code '' @ Number_toString c @ ''.''
                | None \<Rightarrow> ''Command failed.'');
          m2 = (case cargs of
                  Some args \<Rightarrow>
                    m1 @ [CHR 0x0A] @ ''- Command args: '' @ join '' '' (map quote_arg args)
                | None \<Rightarrow> m1);
          m3 = (case messageExtra of
                  Some extra \<Rightarrow> m2 @ [CHR 0x0A] @ extra
                | None \<Rightarrow> m2)
      in \<lparr>message = m3, name' = ''StyxRuntimeError'', returnCode = rc, commandArgs = cargs\<rparr>)"

section \<open>The dry runner\<close>

text \<open>
  \<open>new DryRunner()\<close>: the object is allocated at the next free address and its
  three fields are set to \<open>null\<close>.
\<close>

definition DryRunner_new :: "('p, 'x, 'e) world \<Rightarrow> ref \<times> ('p, 'x, 'e) world" where
  "DryRunner_new w =
     (next_ref w,
      w\<lparr>heap := (heap w)(next_ref w :=
             \<lparr>lastCargs = None, lastMetadata = None, lastParams = None\<rparr>),
        next_ref := Suc (next_ref w)\<rparr>)"

text \<open>
  Each method takes the address \<open>this\<close> of its receiver and the state, and returns
  its result with the state it leaves. \<open>startExecution\<close> returns an \<open>Execution\<close>,
  that is a reference.
\<close>

definition startExecution ::
  "ref \<Rightarrow> Metadata \<Rightarrow> ('p, 'x, 'e) world \<Rightarrow> ref \<times> ('p, 'x, 'e) world" where
  "startExecution this metadata w =
     (this, w\<lparr>heap := (heap w)(this := (heap w this)\<lparr>lastMetadata := Some metadata\<rparr>)\<rparr>)"

text \<open>
  A parameter with a default value is an option: \<open>None\<close> when the caller leaves it
  out, and the default is taken then.
\<close>

definition default_arg :: "'a \<Rightarrow> 'a option \<Rightarrow> 'a" where
  "default_arg d v = (case v of None \<Rightarrow> d | Some x \<Rightarrow> x)"

text \<open>\<open>String.prototype.toString\<close> returns the string.\<close>

definition toString :: "string \<Rightarrow> string" where
  "toString s = s"

definition inputFile ::
  "ref \<Rightarrow> InputPathType \<Rightarrow> bool option \<Rightarrow> bool option \<Rightarrow> ('p, 'x, 'e) world
     \<Rightarrow> string \<times> ('p, 'x, 'e) world" where
  "inputFile this hostFile resolveParent mutable w =
     (let resolveParent = default_arg False resolveParent;
          mutable = default_arg False mutable
      in (toString hostFile, w))"

definition outputFile ::
  "ref \<Rightarrow> string \<Rightarrow> bool option \<Rightarrow> ('p, 'x, 'e) world
     \<Rightarrow> OutputPathType \<times> ('p, 'x, 'e) world" where
  "outputFile this localFile optional w =
     (let optional = default_arg False optional in (localFile, w))"

definition params ::
  "ref \<Rightarrow> 'p \<Rightarrow> ('p, 'x, 'e) world \<Rightarrow> 'p \<times> ('p, 'x, 'e) world" where
  "params this ps w =
     (ps, w\<lparr>heap := (heap w)(this := (heap w this)\<lparr>lastParams := Some ps\<rparr>)\<rparr>)"

text \<open>
  \<open>Execution.run\<close> is the operation that may throw a \<open>StyxRuntimeError\<close>, so its
  result is a sum: \<open>Inl\<close> the error thrown, \<open>Inr\<close> the state after a normal
  return. A callback parameter defaults to \<open>null\<close> (\<open>None\<close>).
\<close>

definition run ::
  "ref \<Rightarrow> string list \<Rightarrow> ('p, 'x, 'e) handler option \<Rightarrow> ('p, 'x, 'e) handler option
     \<Rightarrow> ('p, 'x, 'e) world \<Rightarrow> StyxRuntimeError + ('p, 'x, 'e) world" where
  "run this cargs handleStdout handleStderr w =
     Inr (w\<lparr>heap := (heap w)(this := (heap w this)\<lparr>lastCargs := Some cargs\<rparr>)\<rparr>)"

section \<open>The registry of the default runner\<close>

definition getGlobalRunner ::
  "('p, 'x, 'e) world \<Rightarrow> 'x Runner \<times> ('p, 'x, 'e) world" where
  "getGlobalRunner w =
     (case STYX_GLOBAL_RUNNER w of
        None \<Rightarrow>
          (let (r, w') = DryRunner_new w
           in (DryRunnerRef r, w'\<lparr>STYX_GLOBAL_RUNNER := Some (DryRunnerRef r)\<rparr>))
      | Some r \<Rightarrow> (r, w))"

definition setGlobalRunner ::
  "'x Runner \<Rightarrow> ('p, 'x, 'e) world \<Rightarrow> ('p, 'x, 'e) world" where
  "setGlobalRunner runner w = w\<lparr>STYX_GLOBAL_RUNNER := Some runner\<rparr>"

section \<open>Example states\<close>

text \<open>
  The state at program start: nothing has been allocated and the registry holds
  \<open>null\<close>. The heap is a total function, so an address never handed out reads as an
  object with three \<open>null\<close> fields; no operation reads such an address.
\<close>

definition initial_world :: "'e \<Rightarrow> ('p, 'x, 'e) world" where
  "initial_world e =
     \<lparr>heap = (\<lambda>a. \<lparr>lastCargs = None, lastMetadata = None, lastParams = None\<rparr>),
      next_ref = 0, STYX_GLOBAL_RUNNER = None, env = e\<rparr>"

definition program_start :: "(unit, unit, unit) world" where
  "program_start = initial_world ()"

text \<open>The state after \<open>new DryRunner()\<close> has run twice: objects at addresses 0 and 1.\<close>

definition two_runners :: "(unit, unit, unit) world" where
  "two_runners = snd (DryRunner_new (snd (DryRunner_new (initial_world ()))))"

definition example_metadata :: "string \<Rightarrow> Metadata" where
  "example_metadata n =
     \<lparr>id' = n, name = n, package = ''pkg'', citations = None, container_image_tag = None\<rparr>"

section \<open>Facts about the argument rendering\<close>

lemma replace_dquote_append:
  "replace_dquote (xs @ ys) = replace_dquote xs @ replace_dquote ys"
  by (induction xs) simp_all

lemma replace_dquote_concat:
  "replace_dquote a =
     concat (map (\<lambda>c. if c = CHR 0x22 then [CHR 0x5C, CHR 0x22] else [c]) a)"
  by (induction a) simp_all

lemma replace_dquote_id: "CHR 0x22 \<notin> set a \<Longrightarrow> replace_dquote a = a"
  by (induction a) auto

lemma join_Cons: "join sep (x # xs) = x @ concat (map (\<lambda>y. sep @ y) xs)"
  by (induction xs arbitrary: x) simp_all

lemma digits_2: "digits 2 = ''2''"
  by code_simp

lemma Number_toString_2: "Number_toString 2 = ''2''"
  by (simp add: Number_toString_def digits_2)

lemma message_parts:
  "message (StyxRuntimeError_new rc (Some args) extra) =
     message (StyxRuntimeError_new rc None None) @ [CHR 0x0A] @ ''- Command args: ''
       @ join '' '' (map quote_arg args)
       @ (case extra of None \<Rightarrow> [] | Some e \<Rightarrow> CHR 0x0A # e)"
  by (simp add: StyxRuntimeError_new_def split: option.splits)

lemma message_head_2:
  "message (StyxRuntimeError_new (Some 2) None None) = ''Command failed with return code 2.''"
  by (simp add: StyxRuntimeError_new_def Number_toString_2)

lemma quote_arg_plain:
  "CHR '' '' \<notin> set arg \<Longrightarrow> CHR 0x22 \<notin> set arg \<Longrightarrow> CHR 0x27 \<notin> set arg
     \<Longrightarrow> quote_arg arg = arg"
  by (simp add: quote_arg_def includes'_def)

lemma quote_arg_wrapped:
  "CHR '' '' \<in> set arg \<or> CHR 0x22 \<in> set arg \<or> CHR 0x27 \<in> set arg
     \<Longrightarrow> quote_arg arg = [CHR 0x22] @ replace_dquote arg @ [CHR 0x22]"
  by (simp add: quote_arg_def includes'_def)

lemma example_args_rendered:
  "join '' '' (map quote_arg [''tool'', ''--flag'', ''a b'']) =
     ''tool --flag '' @ [CHR 0x22] @ ''a b'' @ [CHR 0x22]"
  by (simp add: quote_arg_def includes'_def)

section \<open>The message of the error value\<close>

text \<open>
  C4: with return code 2 and the arguments \<open>tool\<close>, \<open>--flag\<close>, \<open>a b\<close> the message
  starts with \<open>Command failed with return code 2.\<close>, a newline, and the line
  \<open>- Command args: tool --flag "a b"\<close>; what follows is nothing, or a newline and
  the extra detail. In general an argument with a space, a double quote or a
  single quote is put between double quotes, each of its double quotes preceded
  by a backslash and every other character kept; an argument with none of the
  three is rendered as it is; and the rendered arguments are joined by one space
  each after the text \<open>- Command args: \<close>.
\<close>

theorem message_with_code_and_args:
  "prefix (''Command failed with return code 2.'' @ [CHR 0x0A]
             @ ''- Command args: tool --flag '' @ [CHR 0x22] @ ''a b'' @ [CHR 0x22])
     (message (StyxRuntimeError_new (Some 2) (Some [''tool'', ''--flag'', ''a b'']) extra))
   \<and> message (StyxRuntimeError_new (Some 2) (Some [''tool'', ''--flag'', ''a b'']) extra) =
       ''Command failed with return code 2.'' @ [CHR 0x0A]
         @ ''- Command args: tool --flag '' @ [CHR 0x22] @ ''a b'' @ [CHR 0x22]
         @ (case extra of None \<Rightarrow> [] | Some e \<Rightarrow> CHR 0x0A # e)
   \<and> (CHR '' '' \<in> set arg \<or> CHR 0x22 \<in> set arg \<or> CHR 0x27 \<in> set arg \<longrightarrow>
        quote_arg arg =
          [CHR 0x22]
            @ concat (map (\<lambda>c. if c = CHR 0x22 then [CHR 0x5C, CHR 0x22] else [c]) arg)
            @ [CHR 0x22])
   \<and> (CHR '' '' \<notin> set arg' \<and> CHR 0x22 \<notin> set arg' \<and> CHR 0x27 \<notin> set arg' \<longrightarrow>
        quote_arg arg' = arg')
   \<and> message (StyxRuntimeError_new rc (Some []) extra) =
       message (StyxRuntimeError_new rc None None) @ [CHR 0x0A] @ ''- Command args: ''
         @ (case extra of None \<Rightarrow> [] | Some e \<Rightarrow> CHR 0x0A # e)
   \<and> message (StyxRuntimeError_new rc (Some (a # as)) extra) =
       message (StyxRuntimeError_new rc None None) @ [CHR 0x0A] @ ''- Command args: ''
         @ quote_arg a @ concat (map (\<lambda>b. '' '' @ quote_arg b) as)
         @ (case extra of None \<Rightarrow> [] | Some e \<Rightarrow> CHR 0x0A # e)"
proof -
  have ex: "message (StyxRuntimeError_new (Some 2) (Some [''tool'', ''--flag'', ''a b'']) extra) =
       ''Command failed with return code 2.'' @ [CHR 0x0A]
         @ ''- Command args: tool --flag '' @ [CHR 0x22] @ ''a b'' @ [CHR 0x22]
         @ (case extra of None \<Rightarrow> [] | Some e \<Rightarrow> CHR 0x0A # e)"
    unfolding message_parts message_head_2 example_args_rendered by simp
  have pre: "prefix (''Command failed with return code 2.'' @ [CHR 0x0A]
             @ ''- Command args: tool --flag '' @ [CHR 0x22] @ ''a b'' @ [CHR 0x22])
     (message (StyxRuntimeError_new (Some 2) (Some [''tool'', ''--flag'', ''a b'']) extra))"
    unfolding ex prefix_def by simp
  have wrapped: "CHR '' '' \<in> set arg \<or> CHR 0x22 \<in> set arg \<or> CHR 0x27 \<in> set arg \<longrightarrow>
        quote_arg arg =
          [CHR 0x22]
            @ concat (map (\<lambda>c. if c = CHR 0x22 then [CHR 0x5C, CHR 0x22] else [c]) arg)
            @ [CHR 0x22]"
    using quote_arg_wrapped [of arg] replace_dquote_concat [of arg] by simp
  have plain: "CHR '' '' \<notin> set arg' \<and> CHR 0x22 \<notin> set arg' \<and> CHR 0x27 \<notin> set arg' \<longrightarrow>
        quote_arg arg' = arg'"
    using quote_arg_plain [of arg'] by simp
  have none: "message (StyxRuntimeError_new rc (Some []) extra) =
       message (StyxRuntimeError_new rc None None) @ [CHR 0x0A] @ ''- Command args: ''
         @ (case extra of None \<Rightarrow> [] | Some e \<Rightarrow> CHR 0x0A # e)"
    unfolding message_parts by simp
  have some: "message (StyxRuntimeError_new rc (Some (a # as)) extra) =
       message (StyxRuntimeError_new rc None None) @ [CHR 0x0A] @ ''- Command args: ''
         @ quote_arg a @ concat (map (\<lambda>b. '' '' @ quote_arg b) as)
         @ (case extra of None \<Rightarrow> [] | Some e \<Rightarrow> CHR 0x0A # e)"
    unfolding message_parts by (simp add: join_Cons comp_def)
  from pre ex wrapped plain none some show ?thesis by blast
qed

text \<open>
  The theorem at \<open>a b\<close> (a space), at \<open>a"b\<close> (a double quote, escaped), at
  \<open>--flag\<close> (rendered as it is), and at the example with the detail \<open>boom\<close>.
\<close>

theorem message_with_code_and_args_witness:
  "quote_arg ''a b'' = [CHR 0x22] @ ''a b'' @ [CHR 0x22]
   \<and> quote_arg [CHR ''a'', CHR 0x22, CHR ''b''] =
       [CHR 0x22, CHR ''a'', CHR 0x5C, CHR 0x22, CHR ''b'', CHR 0x22]
   \<and> quote_arg ''--flag'' = ''--flag''
   \<and> message (StyxRuntimeError_new (Some 2) (Some [''tool'', ''--flag'', ''a b''])
                (Some ''boom'')) =
       ''Command failed with return code 2.'' @ [CHR 0x0A]
         @ ''- Command args: tool --flag '' @ [CHR 0x22] @ ''a b'' @ [CHR 0x22]
         @ [CHR 0x0A] @ ''boom''"
  using message_with_code_and_args
      [of "Some ''boom''" "''a b''" "''--flag''" None "''x''" "[]"]
    message_with_code_and_args
      [of None "[CHR ''a'', CHR 0x22, CHR ''b'']" "''--flag''" None "''x''" "[]"]
  by simp

text \<open>
  C5: the error value built with no return code, no argument vector and no extra
  detail has the message \<open>Command failed.\<close> and nothing more.
\<close>

theorem message_bare:
  "message (StyxRuntimeError_new None None None) = ''Command failed.''"
  by (simp add: StyxRuntimeError_new_def)

text \<open>
  C9: an argument with a single quote, no space and no double quote is put
  between double quotes unchanged (\<open>a'b\<close> gives \<open>"a'b"\<close>); wherever a single
  quote stands in an argument, the argument is wrapped and the single quote is
  copied with nothing before it; the only character that gets a backslash is the
  double quote.
\<close>

theorem single_quote_wrapped_unescaped:
  "(CHR 0x27 \<in> set arg \<and> CHR '' '' \<notin> set arg \<and> CHR 0x22 \<notin> set arg \<longrightarrow>
      quote_arg arg = [CHR 0x22] @ arg @ [CHR 0x22])
   \<and> quote_arg [CHR ''a'', CHR 0x27, CHR ''b''] =
       [CHR 0x22, CHR ''a'', CHR 0x27, CHR ''b'', CHR 0x22]
   \<and> quote_arg (xs @ [CHR 0x27] @ ys) =
       [CHR 0x22] @ replace_dquote xs @ [CHR 0x27] @ replace_dquote ys @ [CHR 0x22]
   \<and> replace_dquote xs =
       concat (map (\<lambda>c. if c = CHR 0x22 then [CHR 0x5C, CHR 0x22] else [c]) xs)"
proof -
  have only_single:
    "CHR 0x27 \<in> set arg \<and> CHR '' '' \<notin> set arg \<and> CHR 0x22 \<notin> set arg \<longrightarrow>
      quote_arg arg = [CHR 0x22] @ arg @ [CHR 0x22]"
    using quote_arg_wrapped [of arg] replace_dquote_id [of arg] by simp
  have example: "quote_arg [CHR ''a'', CHR 0x27, CHR ''b''] =
       [CHR 0x22, CHR ''a'', CHR 0x27, CHR ''b'', CHR 0x22]"
    by (simp add: quote_arg_def includes'_def)
  have "CHR 0x27 \<in> set (xs @ [CHR 0x27] @ ys)" by simp
  then have anywhere: "quote_arg (xs @ [CHR 0x27] @ ys) =
       [CHR 0x22] @ replace_dquote xs @ [CHR 0x27] @ replace_dquote ys @ [CHR 0x22]"
    using quote_arg_wrapped [of "xs @ [CHR 0x27] @ ys"]
    by (simp add: replace_dquote_append)
  from only_single example anywhere replace_dquote_concat [of xs] show ?thesis by blast
qed

text \<open>The theorem at the argument \<open>it's\<close>.\<close>

theorem single_quote_wrapped_unescaped_witness:
  "quote_arg [CHR ''i'', CHR ''t'', CHR 0x27, CHR ''s''] =
     [CHR 0x22, CHR ''i'', CHR ''t'', CHR 0x27, CHR ''s'', CHR 0x22]"
  using single_quote_wrapped_unescaped
      [of "[CHR ''i'', CHR ''t'', CHR 0x27, CHR ''s'']" "[]" "[]"]
  by simp

section \<open>The dry runner as runner and execution\<close>

text \<open>
  C1, as the code has it: \<open>startExecution\<close> of a \<open>DryRunner\<close> records the metadata
  and returns the runner object itself, so a second call on the same runner
  returns the same object as the first; calls on two different \<open>DryRunner\<close>
  objects return different objects, and the second call leaves the object of the
  first as it was.
\<close>

theorem startExecution_returns_this:
  "fst (startExecution this m w) = this
   \<and> fst (startExecution this m' (snd (startExecution this m w))) = fst (startExecution this m w)
   \<and> lastMetadata (heap (snd (startExecution this m w)) this) = Some m
   \<and> (this \<noteq> that \<longrightarrow>
        fst (startExecution that m' (snd (startExecution this m w)))
          \<noteq> fst (startExecution this m w)
        \<and> heap (snd (startExecution that m' (snd (startExecution this m w)))) this
          = heap (snd (startExecution this m w)) this)"
  by (simp add: startExecution_def)

text \<open>The theorem at the runners at addresses 0 and 1.\<close>

theorem startExecution_returns_this_witness:
  "fst (startExecution 1 (example_metadata ''second'')
          (snd (startExecution 0 (example_metadata ''first'') two_runners)))
     \<noteq> fst (startExecution 0 (example_metadata ''first'') two_runners)
   \<and> lastMetadata
        (heap (snd (startExecution 1 (example_metadata ''second'')
                      (snd (startExecution 0 (example_metadata ''first'') two_runners))))
           0)
       = Some (example_metadata ''first'')"
  using startExecution_returns_this
    [of 0 "example_metadata ''first''" two_runners "example_metadata ''second''" 1]
  by simp

text \<open>
  Two calls on the runner at address 0 return the same object, and the metadata
  read through the execution of the first call is that of the second call.
\<close>

theorem startExecution_shared_counterexample:
  "fst (startExecution 0 (example_metadata ''first'') two_runners) =
     fst (startExecution 0 (example_metadata ''second'')
            (snd (startExecution 0 (example_metadata ''first'') two_runners)))
   \<and> lastMetadata
        (heap (snd (startExecution 0 (example_metadata ''second'')
                      (snd (startExecution 0 (example_metadata ''first'') two_runners))))
           (fst (startExecution 0 (example_metadata ''first'') two_runners)))
       = Some (example_metadata ''second'')
   \<and> example_metadata ''second'' \<noteq> example_metadata ''first''"
  by (simp add: startExecution_def example_metadata_def)

text \<open>
  C6: \<open>inputFile\<close> returns the host path it is given, whatever \<open>resolveParent\<close> and
  \<open>mutable\<close> are (given or left out), and \<open>outputFile\<close> returns the local path it
  is given, whatever \<open>optional\<close> is.
\<close>

theorem file_paths_identity:
  "fst (inputFile this p resolveParent mutable w) = p
   \<and> fst (outputFile this q optional w) = q"
  by (simp add: inputFile_def outputFile_def toString_def)

text \<open>
  C7: \<open>params\<close> returns the object it is given, and afterwards \<open>lastParams\<close> of the
  runner holds that object.
\<close>

theorem params_passthrough:
  "fst (params this x w) = x
   \<and> lastParams (heap (snd (params this x w)) this) = Some x"
  by (simp add: params_def)

text \<open>
  C8: \<open>run\<close> returns normally; afterwards \<open>lastCargs\<close> of the runner holds the
  argument vector; the rest of the caller's world, on which the callbacks act, is
  unchanged; and the outcome is the one of the call with no callback at all,
  whatever the callbacks are.
\<close>

theorem run_records_cargs:
  "(\<exists>w'. run this cargs onStdout onStderr w = Inr w'
          \<and> lastCargs (heap w' this) = Some cargs
          \<and> env w' = env w)
   \<and> run this cargs onStdout onStderr w = run this cargs None None w"
  by (simp add: run_def)

text \<open>
  C10: \<open>startExecution\<close> sets \<open>lastMetadata\<close> and leaves \<open>lastCargs\<close> and
  \<open>lastParams\<close> (and everything but the heap) as they were; \<open>inputFile\<close> and
  \<open>outputFile\<close> leave the whole state as it was; \<open>run\<close> returns normally, sets
  \<open>lastCargs\<close>, and leaves \<open>lastMetadata\<close>, \<open>lastParams\<close>, every other object and
  everything but the heap as they were.
\<close>

theorem dry_runner_frame:
  "lastMetadata (heap (snd (startExecution this m w)) this) = Some m
   \<and> lastCargs (heap (snd (startExecution this m w)) this) = lastCargs (heap w this)
   \<and> lastParams (heap (snd (startExecution this m w)) this) = lastParams (heap w this)
   \<and> (snd (startExecution this m w))\<lparr>heap := heap w\<rparr> = w
   \<and> snd (inputFile this p resolveParent mutable w) = w
   \<and> snd (outputFile this q optional w) = w
   \<and> (case run this cargs onStdout onStderr w of
         Inl e \<Rightarrow> False
       | Inr w' \<Rightarrow>
           lastCargs (heap w' this) = Some cargs
           \<and> lastMetadata (heap w' this) = lastMetadata (heap w this)
           \<and> lastParams (heap w' this) = lastParams (heap w this)
           \<and> w'\<lparr>heap := heap w\<rparr> = w
           \<and> heap w' = (heap w)(this := heap w' this))"
  by (simp add: startExecution_def inputFile_def outputFile_def run_def)

section \<open>The registry\<close>

text \<open>
  C2: when the registry holds \<open>null\<close>, \<open>getGlobalRunner\<close> constructs a
  \<open>DryRunner\<close> at an address not handed out before, with its three fields
  \<open>null\<close>, stores the reference in \<open>STYX_GLOBAL_RUNNER\<close>, returns it, and leaves
  the objects that exist and the rest of the state as they were. In every state,
  a second \<open>getGlobalRunner\<close> right after the first returns the same runner and
  changes nothing, and the registry holds the runner returned.
\<close>

theorem getGlobalRunner_lazy_idempotent:
  "(STYX_GLOBAL_RUNNER w = None \<longrightarrow>
      fst (getGlobalRunner w) = DryRunnerRef (next_ref w)
      \<and> heap (snd (getGlobalRunner w)) (next_ref w) =
          \<lparr>lastCargs = None, lastMetadata = None, lastParams = None\<rparr>
      \<and> STYX_GLOBAL_RUNNER (snd (getGlobalRunner w)) = Some (DryRunnerRef (next_ref w))
      \<and> next_ref (snd (getGlobalRunner w)) = Suc (next_ref w)
      \<and> (\<forall>a. a < next_ref w \<longrightarrow> heap (snd (getGlobalRunner w)) a = heap w a)
      \<and> env (snd (getGlobalRunner w)) = env w)
   \<and> fst (getGlobalRunner (snd (getGlobalRunner w))) = fst (getGlobalRunner w)
   \<and> snd (getGlobalRunner (snd (getGlobalRunner w))) = snd (getGlobalRunner w)
   \<and> STYX_GLOBAL_RUNNER (snd (getGlobalRunner w)) = Some (fst (getGlobalRunner w))"
  by (simp add: getGlobalRunner_def DryRunner_new_def split: option.splits)

text \<open>The theorem at program start: both calls return the runner at address 0.\<close>

theorem getGlobalRunner_lazy_idempotent_witness:
  "fst (getGlobalRunner program_start) = DryRunnerRef 0
   \<and> fst (getGlobalRunner (snd (getGlobalRunner program_start))) = DryRunnerRef 0
   \<and> next_ref (snd (getGlobalRunner (snd (getGlobalRunner program_start)))) = 1"
  using getGlobalRunner_lazy_idempotent [of program_start]
  by (simp add: program_start_def initial_world_def)

text \<open>
  C3: after \<open>setGlobalRunner r\<close>, \<open>getGlobalRunner\<close> returns \<open>r\<close> itself, whatever
  the registry held before; nothing is allocated, and the state is the one
  \<open>setGlobalRunner\<close> left.
\<close>

theorem set_then_get:
  "fst (getGlobalRunner (setGlobalRunner r w)) = r
   \<and> snd (getGlobalRunner (setGlobalRunner r w)) = w\<lparr>STYX_GLOBAL_RUNNER := Some r\<rparr>"
  by (simp add: getGlobalRunner_def setGlobalRunner_def)

end
